theory Spec2Isabelle
  imports Main
begin

section \<open>Strings\<close>

text \<open>
  A JavaScript string is a sequence of UTF-16 code units; a code unit is modelled as a
  natural number. \<open>lit\<close> turns a literal of the program text into such a sequence.
\<close>

type_synonym js_string = "nat list"

definition lit :: "string \<Rightarrow> js_string" where
  "lit s = map of_char s"

text \<open>
  \<open>String.prototype.trim\<close> removes the ECMAScript WhiteSpace and LineTerminator code
  points from both ends: TAB, LF, VT, FF, CR, SPACE, NBSP, U+1680, U+2000..U+200A, U+2028,
  U+2029, U+202F, U+205F, U+3000 and U+FEFF.
\<close>

definition isWhiteSpace :: "nat \<Rightarrow> bool" where
  "isWhiteSpace c \<longleftrightarrow>
     c \<in> set [9, 10, 11, 12, 13, 32, 160, 5760, 8232, 8233, 8239, 8287, 12288, 65279]
     \<or> (8192 \<le> c \<and> c \<le> 8202)"

definition trim :: "js_string \<Rightarrow> js_string" where
  "trim s = rev (dropWhile isWhiteSpace (rev (dropWhile isWhiteSpace s)))"

section \<open>Data model\<close>

text \<open>
  An identifier is a JSON number or a JSON string. \<open>===\<close> on two of them is equality of
  type and value, which is the equality of this datatype.
\<close>

datatype ident = NumId int | StrId js_string

record task =
  task_id :: ident
  description :: js_string
  completed :: bool

record user =
  user_id :: ident
  username :: js_string
  email :: js_string
  password :: js_string

text \<open>
  The value \<open>response.json()\<close> resolves to: one of the bodies the API of the program
  exchanges (a Task, an array of Tasks, a User, an array of Users), or an error object with
  an optional \<open>message\<close> and an optional \<open>detail.message\<close>. Any of them may arrive
  at any endpoint, with any status. JSON values of other shapes (\<open>null\<close>, numbers,
  nested arrays) are not part of the model.
\<close>

datatype json =
    TaskJson task
  | TaskArrayJson "task list"
  | UserJson user
  | UserArrayJson "user list"
  | ErrorJson "js_string option" "js_string option"

section \<open>The object store\<close>

text \<open>
  Objects and arrays are reference values. The store is the list of all objects allocated
  so far, a reference is an index into it, and allocation appends, so that a new reference
  is never one already in use.
\<close>

type_synonym ref = nat

datatype obj =
    TaskObj task
  | UserObj user
  | ErrorObj "js_string option" "js_string option"
  | ArrayObj "ref list"

type_synonym heap = "obj list"

definition lookup :: "heap \<Rightarrow> ref \<Rightarrow> obj option" where
  "lookup h a = (if a < length h then Some (h ! a) else None)"

definition alloc :: "obj \<Rightarrow> heap \<Rightarrow> ref \<times> heap" where
  "alloc x h = (length h, h @ [x])"

definition alloc_array :: "obj list \<Rightarrow> heap \<Rightarrow> ref \<times> heap" where
  "alloc_array xs h =
     alloc (ArrayObj [length h ..< length h + length xs]) (h @ xs)"

text \<open>\<open>await response.json()\<close> on a body that parses: the parsed value is built in the store.\<close>

fun response_json :: "json \<Rightarrow> heap \<Rightarrow> ref \<times> heap" where
  "response_json (TaskJson t) h = alloc (TaskObj t) h"
| "response_json (TaskArrayJson ts) h = alloc_array (map TaskObj ts) h"
| "response_json (UserJson u) h = alloc (UserObj u) h"
| "response_json (UserArrayJson us) h = alloc_array (map UserObj us) h"
| "response_json (ErrorJson m d) h = alloc (ErrorObj m d) h"

text \<open>The elements of an array; \<open>None\<close> when the reference is not an array.\<close>

definition elements :: "heap \<Rightarrow> ref \<Rightarrow> ref list option" where
  "elements h a = (case lookup h a of Some (ArrayObj rs) \<Rightarrow> Some rs | _ \<Rightarrow> None)"

text \<open>The property \<open>.id\<close> of an object; \<open>None\<close> is \<open>undefined\<close>.\<close>

fun obj_id :: "obj \<Rightarrow> ident option" where
  "obj_id (TaskObj t) = Some (task_id t)"
| "obj_id (UserObj u) = Some (user_id u)"
| "obj_id (ErrorObj m d) = None"
| "obj_id (ArrayObj rs) = None"

definition get_id :: "heap \<Rightarrow> ref \<Rightarrow> ident option" where
  "get_id h a = (case lookup h a of None \<Rightarrow> None | Some x \<Rightarrow> obj_id x)"

text \<open>The property \<open>.message\<close> and the chain \<open>.detail?.message\<close>.\<close>

definition get_message :: "heap \<Rightarrow> ref \<Rightarrow> js_string option" where
  "get_message h a = (case lookup h a of Some (ErrorObj m d) \<Rightarrow> m | _ \<Rightarrow> None)"

definition get_detail_message :: "heap \<Rightarrow> ref \<Rightarrow> js_string option" where
  "get_detail_message h a = (case lookup h a of Some (ErrorObj m d) \<Rightarrow> d | _ \<Rightarrow> None)"

text \<open>\<open>x || y\<close> on an optional string: \<open>undefined\<close> and the empty string are falsy.\<close>

definition or_else :: "js_string option \<Rightarrow> js_string \<Rightarrow> js_string" where
  "or_else x y = (case x of None \<Rightarrow> y | Some s \<Rightarrow> if s = [] then y else s)"

text \<open>
  \<open>Array.prototype.map\<close> with a callback that does not write to the store: a new array of
  the same length. \<open>None\<close> is the TypeError raised when the receiver has no \<open>map\<close>.
\<close>

definition array_map :: "(ref \<Rightarrow> ref) \<Rightarrow> ref \<Rightarrow> heap \<Rightarrow> (ref \<times> heap) option" where
  "array_map f a h =
     (case elements h a of
        None \<Rightarrow> None
      | Some rs \<Rightarrow> Some (alloc (ArrayObj (map f rs)) h))"

text \<open>
  \<open>Array.prototype.push\<close>: the array is updated in place. \<open>None\<close> is the TypeError raised
  when the receiver has no \<open>push\<close>.
\<close>

definition push :: "ref \<Rightarrow> ref \<Rightarrow> heap \<Rightarrow> heap option" where
  "push a v h =
     (case elements h a of
        None \<Rightarrow> None
      | Some rs \<Rightarrow> Some (h[a := ArrayObj (rs @ [v])]))"

text \<open>The spread \<open>[...xs, v]\<close>: a new array. \<open>None\<close> is the TypeError of a non-iterable.\<close>

definition spread_append :: "ref \<Rightarrow> ref \<Rightarrow> heap \<Rightarrow> (ref \<times> heap) option" where
  "spread_append a v h =
     (case elements h a of
        None \<Rightarrow> None
      | Some rs \<Rightarrow> Some (alloc (ArrayObj (rs @ [v])) h))"

section \<open>Network, console and notices\<close>

datatype http_method = GET | POST | PUT

datatype url = TasksUrl | TaskUrl ident | UsersUrl

datatype request_body =
    NoBody
  | DescriptionBody js_string
  | CompletedBody bool
  | UserBody js_string js_string js_string

datatype request = Request http_method url "(string \<times> string) list" request_body

definition json_headers :: "(string \<times> string) list" where
  "json_headers = [(''Content-Type'', ''application/json'')]"

text \<open>
  A response: \<open>response.ok\<close>, \<open>response.status\<close>, \<open>response.statusText\<close>, and what
  \<open>response.json()\<close> gives, \<open>None\<close> when the body is not JSON and the promise rejects.
\<close>

record response =
  ok :: bool
  status :: nat
  statusText :: js_string
  json_body :: "json option"

text \<open>The promise of \<open>fetch\<close> rejects (network failure) or resolves to a response.\<close>

datatype fetch_result = Rejected | Resolved response

text \<open>
  What a \<open>catch\<close> block receives: the rejection of \<open>fetch\<close>, the
  \<open>Error(`HTTP error! status: ...`)\<close> the handlers throw, the SyntaxError of
  \<open>response.json()\<close>, or a TypeError.
\<close>

datatype js_error = FetchFailed | HttpError nat | SyntaxError | TypeError

datatype console_arg = ErrorArg js_error | StringArg js_string | ObjectArg ref

section \<open>Application state\<close>

text \<open>
  The state variables of \<open>App\<close>, the store they point into, and what the component has
  done to the outside: the requests issued, the \<open>alert\<close> notices shown, the
  \<open>console.error\<close> lines written and the errors no handler caught.
\<close>

record world =
  heap :: heap
  tasks :: ref
  newTaskDescription :: js_string
  taskLoading :: bool
  users :: ref
  newUsername :: js_string
  newUserEmail :: js_string
  newUserPassword :: js_string
  userLoading :: bool
  network :: "request list"
  alerts :: "js_string list"
  console :: "(js_string \<times> console_arg) list"
  uncaught :: "js_error list"

definition setTasks :: "ref \<Rightarrow> world \<Rightarrow> world" where
  "setTasks v w = w\<lparr>tasks := v\<rparr>"

definition setNewTaskDescription :: "js_string \<Rightarrow> world \<Rightarrow> world" where
  "setNewTaskDescription v w = w\<lparr>newTaskDescription := v\<rparr>"

definition setTaskLoading :: "bool \<Rightarrow> world \<Rightarrow> world" where
  "setTaskLoading v w = w\<lparr>taskLoading := v\<rparr>"

definition setUsers :: "ref \<Rightarrow> world \<Rightarrow> world" where
  "setUsers v w = w\<lparr>users := v\<rparr>"

definition setNewUsername :: "js_string \<Rightarrow> world \<Rightarrow> world" where
  "setNewUsername v w = w\<lparr>newUsername := v\<rparr>"

definition setNewUserEmail :: "js_string \<Rightarrow> world \<Rightarrow> world" where
  "setNewUserEmail v w = w\<lparr>newUserEmail := v\<rparr>"

definition setNewUserPassword :: "js_string \<Rightarrow> world \<Rightarrow> world" where
  "setNewUserPassword v w = w\<lparr>newUserPassword := v\<rparr>"

definition setUserLoading :: "bool \<Rightarrow> world \<Rightarrow> world" where
  "setUserLoading v w = w\<lparr>userLoading := v\<rparr>"

definition fetch :: "request \<Rightarrow> world \<Rightarrow> world" where
  "fetch q w = w\<lparr>network := network w @ [q]\<rparr>"

definition alert :: "js_string \<Rightarrow> world \<Rightarrow> world" where
  "alert m w = w\<lparr>alerts := alerts w @ [m]\<rparr>"

definition console_error :: "string \<Rightarrow> console_arg \<Rightarrow> world \<Rightarrow> world" where
  "console_error l x w = w\<lparr>console := console w @ [(lit l, x)]\<rparr>"

section \<open>The handlers of \<open>App\<close>\<close>

text \<open>
  Every handler is an \<open>async\<close> function with one \<open>await\<close>ed \<open>fetch\<close>. It is modelled in
  two parts: what runs when it is called, up to and including the \<open>fetch\<close>, and what runs
  when the promise of the \<open>fetch\<close> settles (\<open>_resume\<close>), which takes the outcome of the
  request and the world at that moment. The handler proper is the second after the first,
  one round trip with nothing in between.

  A handler reads the state variables of the render that created it. Those it reads after
  the \<open>await\<close> are explicit arguments (\<open>tasks_c\<close>); its setters write to the current world.
\<close>

subsection \<open>\<open>fetchTasks\<close>\<close>

definition fetchTasks_start :: "world \<Rightarrow> world" where
  "fetchTasks_start w = fetch (Request GET TasksUrl [] NoBody) (setTaskLoading True w)"

definition fetchTasks_resume :: "fetch_result \<Rightarrow> world \<Rightarrow> world" where
  "fetchTasks_resume res w =
     setTaskLoading False
       (case res of
          Rejected \<Rightarrow> console_error ''Failed to fetch tasks:'' (ErrorArg FetchFailed) w
        | Resolved r \<Rightarrow>
            if \<not> ok r then
              console_error ''Failed to fetch tasks:'' (ErrorArg (HttpError (status r))) w
            else
              (case json_body r of
                 None \<Rightarrow> console_error ''Failed to fetch tasks:'' (ErrorArg SyntaxError) w
               | Some j \<Rightarrow>
                   (case response_json j (heap w) of
                      (data, h) \<Rightarrow> setTasks data (w\<lparr>heap := h\<rparr>))))"

definition fetchTasks :: "fetch_result \<Rightarrow> world \<Rightarrow> world" where
  "fetchTasks res w = fetchTasks_resume res (fetchTasks_start w)"

subsection \<open>\<open>handleAddTask\<close>\<close>

definition handleAddTask_resume :: "ref \<Rightarrow> fetch_result \<Rightarrow> world \<Rightarrow> world" where
  "handleAddTask_resume tasks_c res w =
     (case res of
        Rejected \<Rightarrow> console_error ''Failed to add task:'' (ErrorArg FetchFailed) w
      | Resolved r \<Rightarrow>
          if \<not> ok r then
            console_error ''Failed to add task:'' (ErrorArg (HttpError (status r))) w
          else
            (case json_body r of
               None \<Rightarrow> console_error ''Failed to add task:'' (ErrorArg SyntaxError) w
             | Some j \<Rightarrow>
                 (case response_json j (heap w) of
                    (newTask, h) \<Rightarrow>
                      (case push tasks_c newTask h of
                         None \<Rightarrow>
                           console_error ''Failed to add task:'' (ErrorArg TypeError)
                             (w\<lparr>heap := h\<rparr>)
                       | Some h' \<Rightarrow>
                           setNewTaskDescription []
                             (setTasks tasks_c (w\<lparr>heap := h'\<rparr>))))))"

definition handleAddTask :: "ref \<Rightarrow> js_string \<Rightarrow> fetch_result \<Rightarrow> world \<Rightarrow> world" where
  "handleAddTask tasks_c newTaskDescription_c res w =
     (if trim newTaskDescription_c = [] then
        alert (lit ''Task description cannot be empty!'') w
      else
        handleAddTask_resume tasks_c res
          (fetch (Request POST TasksUrl json_headers (DescriptionBody newTaskDescription_c)) w))"

subsection \<open>\<open>handleToggleComplete\<close>\<close>

definition handleToggleComplete_resume :: "ref \<Rightarrow> fetch_result \<Rightarrow> world \<Rightarrow> world" where
  "handleToggleComplete_resume tasks_c res w =
     (case res of
        Rejected \<Rightarrow> console_error ''Error toggling task status:'' (ErrorArg FetchFailed) w
      | Resolved r \<Rightarrow>
          (case json_body r of
             None \<Rightarrow> console_error ''Error toggling task status:'' (ErrorArg SyntaxError) w
           | Some j \<Rightarrow>
               (case response_json j (heap w) of
                  (updatedTask, h) \<Rightarrow>
                    if ok r then
                      (case array_map
                              (\<lambda>task. if get_id h task = get_id h updatedTask
                                       then updatedTask else task)
                              tasks_c h of
                         None \<Rightarrow>
                           console_error ''Error toggling task status:'' (ErrorArg TypeError)
                             (w\<lparr>heap := h\<rparr>)
                       | Some (updatedTasks, h') \<Rightarrow> setTasks updatedTasks (w\<lparr>heap := h'\<rparr>))
                    else
                      console_error ''Failed to update task:''
                        (StringArg (or_else (get_message h updatedTask) (statusText r)))
                        (w\<lparr>heap := h\<rparr>))))"

definition handleToggleComplete ::
  "ref \<Rightarrow> ident \<Rightarrow> bool \<Rightarrow> fetch_result \<Rightarrow> world \<Rightarrow> world" where
  "handleToggleComplete tasks_c taskId currentStatus res w =
     handleToggleComplete_resume tasks_c res
       (fetch (Request PUT (TaskUrl taskId) json_headers (CompletedBody (\<not> currentStatus))) w)"

subsection \<open>\<open>fetchUsers\<close>\<close>

definition fetchUsers_start :: "world \<Rightarrow> world" where
  "fetchUsers_start w = fetch (Request GET UsersUrl [] NoBody) (setUserLoading True w)"

definition fetchUsers_resume :: "fetch_result \<Rightarrow> world \<Rightarrow> world" where
  "fetchUsers_resume res w =
     setUserLoading False
       (case res of
          Rejected \<Rightarrow> console_error ''Failed to fetch users:'' (ErrorArg FetchFailed) w
        | Resolved r \<Rightarrow>
            (case json_body r of
               None \<Rightarrow> console_error ''Failed to fetch users:'' (ErrorArg SyntaxError) w
             | Some j \<Rightarrow>
                 (case response_json j (heap w) of
                    (data, h) \<Rightarrow> setUsers data (w\<lparr>heap := h\<rparr>))))"

definition fetchUsers :: "fetch_result \<Rightarrow> world \<Rightarrow> world" where
  "fetchUsers res w = fetchUsers_resume res (fetchUsers_start w)"

subsection \<open>\<open>handleCreateUser\<close>\<close>

text \<open>
  \<open>setUsers(prevUsers => [...prevUsers, newUser])\<close>: the updater runs on the current user
  list. When that is not iterable the TypeError is raised while rendering, outside the
  \<open>try\<close> of the handler.
\<close>

definition setUsers_append :: "ref \<Rightarrow> world \<Rightarrow> world" where
  "setUsers_append newUser w =
     (case spread_append (users w) newUser (heap w) of
        None \<Rightarrow> w\<lparr>uncaught := uncaught w @ [TypeError]\<rparr>
      | Some (a, h) \<Rightarrow> setUsers a (w\<lparr>heap := h\<rparr>))"

text \<open>
  The last statement of the success path, \<open>fetchUsers()\<close>, is not awaited: the handler
  ends once that request is issued (\<open>fetchUsers_start\<close>), and \<open>fetchUsers_resume\<close> runs
  later, on the outcome of that second request.
\<close>

definition handleCreateUser_resume :: "fetch_result \<Rightarrow> world \<Rightarrow> world" where
  "handleCreateUser_resume res w =
     (case res of
        Rejected \<Rightarrow>
          alert (lit ''An unexpected error occurred while creating user.'')
            (console_error ''Error creating user:'' (ErrorArg FetchFailed) w)
      | Resolved r \<Rightarrow>
          (case json_body r of
             None \<Rightarrow>
               alert (lit ''An unexpected error occurred while creating user.'')
                 (console_error ''Error creating user:'' (ErrorArg SyntaxError) w)
           | Some j \<Rightarrow>
               (case response_json j (heap w) of
                  (data, h) \<Rightarrow>
                    if \<not> ok r then
                      alert (lit ''Error creating user: ''
                               @ or_else (get_detail_message h data) (lit ''Unknown error''))
                        (console_error ''Failed to create user:'' (ObjectArg data)
                           (w\<lparr>heap := h\<rparr>))
                    else
                      fetchUsers_start
                        (setNewUserPassword []
                           (setNewUserEmail []
                              (setNewUsername []
                                 (setUsers_append data (w\<lparr>heap := h\<rparr>))))))))"

definition handleCreateUser ::
  "js_string \<Rightarrow> js_string \<Rightarrow> js_string \<Rightarrow> fetch_result \<Rightarrow> world \<Rightarrow> world" where
  "handleCreateUser newUsername_c newUserEmail_c newUserPassword_c res w =
     (if trim newUsername_c = [] \<or> trim newUserEmail_c = [] \<or> trim newUserPassword_c = [] then
        alert (lit ''All user fields are required!'') w
      else
        handleCreateUser_resume res
          (fetch (Request POST UsersUrl json_headers
                    (UserBody newUsername_c newUserEmail_c newUserPassword_c)) w))"

section \<open>Reading the lists\<close>

text \<open>
  The local task list and the local user list, as the view reads them: the objects the
  elements of the array refer to. \<open>None\<close> when the state variable is not an array of live
  references.
\<close>

definition deref_array :: "heap \<Rightarrow> ref \<Rightarrow> obj list option" where
  "deref_array h a =
     (case elements h a of
        None \<Rightarrow> None
      | Some rs \<Rightarrow> those (map (lookup h) rs))"

definition task_list :: "world \<Rightarrow> obj list option" where
  "task_list w = deref_array (heap w) (tasks w)"

definition user_list :: "world \<Rightarrow> obj list option" where
  "user_list w = deref_array (heap w) (users w)"

definition is_task :: "heap \<Rightarrow> ref \<Rightarrow> bool" where
  "is_task h a = (case lookup h a of Some (TaskObj t) \<Rightarrow> True | _ \<Rightarrow> False)"

definition is_user :: "heap \<Rightarrow> ref \<Rightarrow> bool" where
  "is_user h a = (case lookup h a of Some (UserObj u) \<Rightarrow> True | _ \<Rightarrow> False)"

text \<open>The state variable holds a list of Tasks (of Users), with these element references.\<close>

definition task_array :: "heap \<Rightarrow> ref \<Rightarrow> ref list \<Rightarrow> bool" where
  "task_array h a rs \<longleftrightarrow> elements h a = Some rs \<and> list_all (is_task h) rs"

definition user_array :: "heap \<Rightarrow> ref \<Rightarrow> ref list \<Rightarrow> bool" where
  "user_array h a rs \<longleftrightarrow> elements h a = Some rs \<and> list_all (is_user h) rs"

text \<open>A transport or server failure: the network failed or the status is not a success.\<close>

fun failure :: "fetch_result \<Rightarrow> bool" where
  "failure Rejected = True"
| "failure (Resolved r) = (\<not> ok r)"

section \<open>Example data\<close>

definition buy_milk :: task where
  "buy_milk = \<lparr>task_id = NumId 1, description = lit ''buy milk'', completed = False\<rparr>"

definition buy_milk_done :: task where
  "buy_milk_done = \<lparr>task_id = NumId 1, description = lit ''buy milk'', completed = True\<rparr>"

definition walk_dog :: task where
  "walk_dog = \<lparr>task_id = NumId 2, description = lit ''walk dog'', completed = False\<rparr>"

definition alice :: user where
  "alice = \<lparr>user_id = NumId 7, username = lit ''alice'', email = lit ''a@x.com'',
             password = lit ''secret''\<rparr>"

text \<open>One task and no user; two tasks and one user.\<close>

definition one_task_world :: world where
  "one_task_world =
     \<lparr>heap = [TaskObj buy_milk, ArrayObj [0], ArrayObj []],
      tasks = 1, newTaskDescription = [], taskLoading = False,
      users = 2, newUsername = [], newUserEmail = [], newUserPassword = [],
      userLoading = False, network = [], alerts = [], console = [], uncaught = []\<rparr>"

definition two_task_world :: world where
  "two_task_world =
     \<lparr>heap = [TaskObj buy_milk, TaskObj walk_dog, ArrayObj [0, 1], UserObj alice, ArrayObj [3]],
      tasks = 2, newTaskDescription = [], taskLoading = False,
      users = 4, newUsername = [], newUserEmail = [], newUserPassword = [],
      userLoading = False, network = [], alerts = [], console = [], uncaught = []\<rparr>"

text \<open>The user form filled in, and a task the server reports as completed.\<close>

definition alice_form_world :: world where
  "alice_form_world =
     one_task_world\<lparr>newUsername := lit ''alice'', newUserEmail := lit ''a@x.com'',
                     newUserPassword := lit ''secret''\<rparr>"

definition pay_rent_done :: task where
  "pay_rent_done = \<lparr>task_id = NumId 3, description = lit ''pay rent'', completed = True\<rparr>"

definition walk_dog_done :: task where
  "walk_dog_done = \<lparr>task_id = NumId 2, description = lit ''walk dog'', completed = True\<rparr>"

definition pay_rent :: task where
  "pay_rent = \<lparr>task_id = NumId 3, description = lit ''pay rent'', completed = False\<rparr>"

definition ok_response :: "json \<Rightarrow> response" where
  "ok_response j = \<lparr>ok = True, status = 200, statusText = lit ''OK'', json_body = Some j\<rparr>"

definition error_response :: response where
  "error_response =
     \<lparr>ok = False, status = 500, statusText = lit ''Internal Server Error'',
      json_body = Some (ErrorJson None (Some (lit ''boom'')))\<rparr>"

section \<open>Facts about the store\<close>

lemma lookup_append_old: "a < length h \<Longrightarrow> lookup (h @ ext) a = lookup h a"
  by (simp add: lookup_def nth_append)

lemma lookup_Some_less: "lookup h a = Some x \<Longrightarrow> a < length h"
  by (simp add: lookup_def split: if_splits)

lemma lookup_new: "lookup (h @ x # ext) (length h) = Some x"
  by (simp add: lookup_def)

lemma elements_Some_less: "elements h a = Some rs \<Longrightarrow> a < length h"
  by (auto simp: elements_def dest: lookup_Some_less split: option.splits)

lemma elements_append_old: "a < length h \<Longrightarrow> elements (h @ ext) a = elements h a"
  by (simp add: elements_def lookup_append_old)

lemma get_id_append_old: "a < length h \<Longrightarrow> get_id (h @ ext) a = get_id h a"
  by (simp add: get_id_def lookup_append_old)

lemma is_task_less: "is_task h a \<Longrightarrow> a < length h"
  by (auto simp: is_task_def dest: lookup_Some_less split: option.splits)

lemma task_array_less: "task_array h a rs \<Longrightarrow> r \<in> set rs \<Longrightarrow> r < length h"
  by (auto simp: task_array_def list_all_iff dest: is_task_less)

lemma task_array_elements: "task_array h a rs \<Longrightarrow> elements h a = Some rs"
  by (simp add: task_array_def)

lemma those_map_lookup:
  "\<forall>a\<in>set rs. a < length h \<Longrightarrow> those (map (lookup h) rs) = Some (map ((!) h) rs)"
  by (induction rs) (simp_all add: lookup_def)

lemma deref_array_live:
  "elements h a = Some rs \<Longrightarrow> \<forall>r\<in>set rs. r < length h \<Longrightarrow>
   deref_array h a = Some (map ((!) h) rs)"
  by (simp add: deref_array_def those_map_lookup)

lemma deref_task_array: "task_array h a rs \<Longrightarrow> deref_array h a = Some (map ((!) h) rs)"
  by (rule deref_array_live) (auto simp: task_array_elements dest: task_array_less)

section \<open>The merge step of a successful toggle\<close>

lemma toggle_resume_ok:
  assumes "task_array (heap w) c rs" "ok r" "json_body r = Some (TaskJson u)"
  shows "handleToggleComplete_resume c (Resolved r) w =
     w\<lparr>heap := heap w @ [TaskObj u,
          ArrayObj (map (\<lambda>a. if get_id (heap w) a = Some (task_id u)
                              then length (heap w) else a) rs)],
       tasks := Suc (length (heap w))\<rparr>"
proof -
  have el: "elements (heap w) c = Some rs"
    using assms(1) by (rule task_array_elements)
  have c: "c < length (heap w)"
    using el by (rule elements_Some_less)
  have new: "get_id (heap w @ [TaskObj u]) (length (heap w)) = Some (task_id u)"
    by (simp add: get_id_def lookup_new)
  have "map (\<lambda>a. if get_id (heap w @ [TaskObj u]) a = get_id (heap w @ [TaskObj u]) (length (heap w))
                  then length (heap w) else a) rs
      = map (\<lambda>a. if get_id (heap w) a = Some (task_id u) then length (heap w) else a) rs"
    using task_array_less[OF assms(1)] by (simp add: new get_id_append_old)
  then show ?thesis
    using assms(2,3) el c
    by (simp add: handleToggleComplete_resume_def alloc_def array_map_def
        elements_append_old setTasks_def)
qed

lemma merged_values:
  assumes "\<forall>a\<in>set rs. a < length h"
  shows "map ((!) (h @ [TaskObj u, ArrayObj rs']))
           (map (\<lambda>a. if get_id h a = Some k then length h else a) rs)
       = map (\<lambda>x. if obj_id x = Some k then TaskObj u else x) (map ((!) h) rs)"
  using assms by (induction rs) (simp_all add: get_id_def lookup_def nth_append)

lemma toggle_resume_task_list:
  assumes "task_array (heap w) c rs" "ok r" "json_body r = Some (TaskJson u)"
  shows "task_list (handleToggleComplete_resume c (Resolved r) w)
       = Some (map (\<lambda>x. if obj_id x = Some (task_id u) then TaskObj u else x)
                 (map ((!) (heap w)) rs))"
proof -
  let ?rs' = "map (\<lambda>a. if get_id (heap w) a = Some (task_id u) then length (heap w) else a) rs"
  let ?h' = "heap w @ [TaskObj u, ArrayObj ?rs']"
  have live: "\<forall>a\<in>set rs. a < length (heap w)"
    using task_array_less[OF assms(1)] by blast
  have el: "elements ?h' (Suc (length (heap w))) = Some ?rs'"
    by (simp add: elements_def lookup_def nth_append)
  have live': "\<forall>a\<in>set ?rs'. a < length ?h'"
    using live by auto
  have "deref_array ?h' (Suc (length (heap w))) = Some (map ((!) ?h') ?rs')"
    using el live' by (rule deref_array_live)
  then show ?thesis
    using merged_values[OF live, of u ?rs' "task_id u"]
    by (simp add: toggle_resume_ok[OF assms] task_list_def)
qed

lemma toggle_resume_task_array:
  assumes "task_array (heap w) c rs" "ok r" "json_body r = Some (TaskJson u)"
  shows "task_array (heap (handleToggleComplete_resume c (Resolved r) w))
           (tasks (handleToggleComplete_resume c (Resolved r) w))
           (map (\<lambda>a. if get_id (heap w) a = Some (task_id u) then length (heap w) else a) rs)"
  using task_array_less[OF assms(1)] assms(1)
  by (auto simp: toggle_resume_ok[OF assms] task_array_def elements_def lookup_def nth_append
      list_all_iff is_task_def split: option.splits obj.splits)

section \<open>Toggling a task\<close>

lemma heap_fetch: "heap (fetch q w) = heap w"
  by (simp add: fetch_def)

lemma tasks_fetch: "tasks (fetch q w) = tasks w"
  by (simp add: fetch_def)

lemma task_list_fetch: "task_list (fetch q w) = task_list w"
  by (simp add: task_list_def heap_fetch tasks_fetch)

lemma task_array_append_old: "task_array h a rs \<Longrightarrow> task_array (h @ ext) a rs"
  by (frule task_array_elements [THEN elements_Some_less])
     (auto simp: task_array_def elements_append_old list_all_iff is_task_def lookup_def
        nth_append split: if_splits)

lemma nth_append_old: "\<forall>a\<in>set rs. a < length h \<Longrightarrow> map ((!) (h @ ext)) rs = map ((!) h) rs"
  by (simp add: nth_append)

lemma obj_id_nth: "a < length h \<Longrightarrow> obj_id (h ! a) = get_id h a"
  by (simp add: get_id_def lookup_def)

lemma network_toggle_resume: "network (handleToggleComplete_resume c res w) = network w"
  by (simp add: handleToggleComplete_resume_def console_error_def setTasks_def
      split: fetch_result.splits option.splits prod.splits)

text \<open>
  C1. The merge of a successful toggle maps over the task list of the render that created
  the handler, not over the local task list at the time the response arrives. With the
  list "buy milk", "walk dog" the user toggles both tasks before either response is back,
  so both handlers hold that list. The first response makes the local list
  "buy milk" (completed), "walk dog". The second response, for "walk dog", then gives
  "buy milk" (not completed), "walk dog" (completed): the entry of the other id is not the
  one the local list had before this round trip.
\<close>

theorem toggle_stale_list_reverts_other_entry:
  "(let c = tasks two_task_world;
        w0 = fetch (Request PUT (TaskUrl (NumId 2)) json_headers (CompletedBody (\<not> False)))
               (fetch (Request PUT (TaskUrl (NumId 1)) json_headers (CompletedBody (\<not> False)))
                  two_task_world);
        w1 = handleToggleComplete_resume c (Resolved (ok_response (TaskJson buy_milk_done))) w0;
        w2 = handleToggleComplete_resume c (Resolved (ok_response (TaskJson walk_dog_done))) w1
    in task_list w0 = Some [TaskObj buy_milk, TaskObj walk_dog]
     \<and> task_list w1 = Some [TaskObj buy_milk_done, TaskObj walk_dog]
     \<and> task_id buy_milk_done \<noteq> task_id walk_dog_done
     \<and> task_list w2 = Some [TaskObj buy_milk, TaskObj walk_dog_done]
     \<and> buy_milk \<noteq> buy_milk_done)"
  by (simp add: Let_def two_task_world_def ok_response_def fetch_def
      handleToggleComplete_resume_def alloc_def array_map_def elements_def lookup_def
      get_id_def setTasks_def task_list_def deref_array_def nth_append
      buy_milk_def buy_milk_done_def walk_dog_def walk_dog_done_def)

text \<open>
  C10. The same two toggles in flight, where the second response carries a Task whose id
  (3) no entry of the list has. The first response makes the local list
  "buy milk" (completed), "walk dog"; the second, unmatched, response replaces it by a copy
  of the list its handler holds, "buy milk" (not completed), "walk dog": an entry of the
  local list has changed.
\<close>

theorem toggle_stale_list_unmatched_id_changes_list:
  "(let c = tasks two_task_world;
        w0 = fetch (Request PUT (TaskUrl (NumId 2)) json_headers (CompletedBody (\<not> False)))
               (fetch (Request PUT (TaskUrl (NumId 1)) json_headers (CompletedBody (\<not> False)))
                  two_task_world);
        w1 = handleToggleComplete_resume c (Resolved (ok_response (TaskJson buy_milk_done))) w0;
        w2 = handleToggleComplete_resume c (Resolved (ok_response (TaskJson pay_rent_done))) w1
    in task_list w1 = Some [TaskObj buy_milk_done, TaskObj walk_dog]
     \<and> obj_id (TaskObj buy_milk_done) \<noteq> Some (task_id pay_rent_done)
     \<and> obj_id (TaskObj walk_dog) \<noteq> Some (task_id pay_rent_done)
     \<and> task_list w2 = Some [TaskObj buy_milk, TaskObj walk_dog]
     \<and> task_list w2 \<noteq> task_list w1)"
  by (simp add: Let_def two_task_world_def ok_response_def fetch_def
      handleToggleComplete_resume_def alloc_def array_map_def elements_def lookup_def
      get_id_def setTasks_def task_list_def deref_array_def nth_append
      buy_milk_def buy_milk_done_def walk_dog_def pay_rent_done_def)

text \<open>
  C7. ToggleComplete(taskId, currentStatus) issues one PUT request for that task whose body
  has \<open>completed\<close> set to the negation of \<open>currentStatus\<close>, whatever the outcome. In the
  scenario of the list with the one task "buy milk" (id 1, not completed) and the server
  answering with that task completed, the resulting list is that answer alone.
\<close>

theorem toggle_sends_negation_and_scenario:
  "network (handleToggleComplete c taskId currentStatus res w)
     = network w @ [Request PUT (TaskUrl taskId) json_headers (CompletedBody (\<not> currentStatus))]
   \<and> task_list one_task_world
     = Some [TaskObj \<lparr>task_id = NumId 1, description = lit ''buy milk'', completed = False\<rparr>]
   \<and> task_list (handleToggleComplete (tasks one_task_world) (NumId 1) False
        (Resolved (ok_response (TaskJson
           \<lparr>task_id = NumId 1, description = lit ''buy milk'', completed = True\<rparr>)))
        one_task_world)
     = Some [TaskObj \<lparr>task_id = NumId 1, description = lit ''buy milk'', completed = True\<rparr>]"
proof -
  have net: "network (handleToggleComplete c taskId currentStatus res w)
     = network w @ [Request PUT (TaskUrl taskId) json_headers (CompletedBody (\<not> currentStatus))]"
    by (simp add: handleToggleComplete_def network_toggle_resume fetch_def)
  have old: "task_list one_task_world
     = Some [TaskObj \<lparr>task_id = NumId 1, description = lit ''buy milk'', completed = False\<rparr>]"
    by (simp add: one_task_world_def task_list_def deref_array_def elements_def lookup_def
        buy_milk_def)
  have new: "task_list (handleToggleComplete (tasks one_task_world) (NumId 1) False
        (Resolved (ok_response (TaskJson
           \<lparr>task_id = NumId 1, description = lit ''buy milk'', completed = True\<rparr>)))
        one_task_world)
     = Some [TaskObj \<lparr>task_id = NumId 1, description = lit ''buy milk'', completed = True\<rparr>]"
    by (simp add: handleToggleComplete_def handleToggleComplete_resume_def fetch_def
        ok_response_def one_task_world_def alloc_def array_map_def elements_def lookup_def
        get_id_def setTasks_def task_list_def deref_array_def buy_milk_def nth_append)
  show ?thesis
    using net old new by simp
qed

section \<open>Two toggles of one task in flight\<close>

lemma merge_twice:
  assumes "task_id u1 = task_id u2"
  shows "map (\<lambda>x. if obj_id x = Some (task_id u2) then TaskObj u2 else x)
           (map (\<lambda>x. if obj_id x = Some (task_id u1) then TaskObj u1 else x) xs)
       = map (\<lambda>x. if obj_id x = Some (task_id u2) then TaskObj u2 else x) xs"
  using assms by (induction xs) simp_all

text \<open>
  C8. Two successful toggle responses for the same task id, merged in the order they
  arrive: in the resulting list every entry with that id is the response merged second, and
  every other entry is as before. This holds whether the second handler was created by the
  same render as the first (it merges into the list that render saw) or by the render that
  followed the first merge; the merge step does not look at the requests.
\<close>

theorem toggle_last_applied_response_wins:
  assumes "task_array (heap w) (tasks w) rs"
    and "ok r1" and "json_body r1 = Some (TaskJson u1)"
    and "ok r2" and "json_body r2 = Some (TaskJson u2)"
    and "task_id u1 = task_id u2"
  shows "(let w1 = handleToggleComplete_resume (tasks w) (Resolved r1) w;
              merged = map_option
                         (map (\<lambda>x. if obj_id x = Some (task_id u2) then TaskObj u2 else x))
                         (task_list w)
          in task_list (handleToggleComplete_resume (tasks w) (Resolved r2) w1) = merged
           \<and> task_list (handleToggleComplete_resume (tasks w1) (Resolved r2) w1) = merged)"
proof -
  let ?w1 = "handleToggleComplete_resume (tasks w) (Resolved r1) w"
  let ?f1 = "\<lambda>x. if obj_id x = Some (task_id u1) then TaskObj u1 else x"
  let ?f2 = "\<lambda>x. if obj_id x = Some (task_id u2) then TaskObj u2 else x"
  let ?rs1 = "map (\<lambda>a. if get_id (heap w) a = Some (task_id u1) then length (heap w) else a) rs"
  have live: "\<forall>a\<in>set rs. a < length (heap w)"
    using task_array_less[OF assms(1)] by blast
  have old: "task_list w = Some (map ((!) (heap w)) rs)"
    using deref_task_array[OF assms(1)] by (simp add: task_list_def)
  have h1: "heap ?w1 = heap w @ [TaskObj u1, ArrayObj ?rs1]"
    by (simp add: toggle_resume_ok[OF assms(1,2,3)])
  txt \<open>The second response merges into the list the first handler also saw.\<close>
  have stale: "task_array (heap ?w1) (tasks w) rs"
    unfolding h1 using assms(1) by (rule task_array_append_old)
  have "task_list (handleToggleComplete_resume (tasks w) (Resolved r2) ?w1)
      = Some (map ?f2 (map ((!) (heap ?w1)) rs))"
    using stale assms(4,5) by (rule toggle_resume_task_list)
  also have "map ((!) (heap ?w1)) rs = map ((!) (heap w)) rs"
    unfolding h1 using live by (rule nth_append_old)
  finally have A: "task_list (handleToggleComplete_resume (tasks w) (Resolved r2) ?w1)
      = Some (map ?f2 (map ((!) (heap w)) rs))" .
  txt \<open>The second response merges into the list the first merge produced.\<close>
  have fresh: "task_array (heap ?w1) (tasks ?w1) ?rs1"
    using assms(1,2,3) by (rule toggle_resume_task_array)
  have "Some (map ((!) (heap ?w1)) ?rs1) = task_list ?w1"
    using deref_task_array[OF fresh] by (simp add: task_list_def)
  also have "\<dots> = Some (map ?f1 (map ((!) (heap w)) rs))"
    using assms(1,2,3) by (rule toggle_resume_task_list)
  finally have mid: "map ((!) (heap ?w1)) ?rs1 = map ?f1 (map ((!) (heap w)) rs)"
    by simp
  have "task_list (handleToggleComplete_resume (tasks ?w1) (Resolved r2) ?w1)
      = Some (map ?f2 (map ((!) (heap ?w1)) ?rs1))"
    using fresh assms(4,5) by (rule toggle_resume_task_list)
  also have "map ?f2 (map ((!) (heap ?w1)) ?rs1) = map ?f2 (map ?f1 (map ((!) (heap w)) rs))"
    by (simp only: mid)
  also have "\<dots> = map ?f2 (map ((!) (heap w)) rs)"
    using assms(6) by (rule merge_twice)
  finally have B: "task_list (handleToggleComplete_resume (tasks ?w1) (Resolved r2) ?w1)
      = Some (map ?f2 (map ((!) (heap w)) rs))" .
  show ?thesis
    unfolding Let_def using A B old by simp
qed

theorem toggle_last_applied_response_wins_witness:
  "task_array (heap two_task_world) (tasks two_task_world) [0, 1]
   \<and> ok (ok_response (TaskJson buy_milk_done))
   \<and> json_body (ok_response (TaskJson buy_milk_done)) = Some (TaskJson buy_milk_done)
   \<and> ok (ok_response (TaskJson buy_milk))
   \<and> json_body (ok_response (TaskJson buy_milk)) = Some (TaskJson buy_milk)
   \<and> task_id buy_milk_done = task_id buy_milk
   \<and> task_list two_task_world = Some [TaskObj buy_milk, TaskObj walk_dog]
   \<and> (let w1 = handleToggleComplete_resume (tasks two_task_world)
                   (Resolved (ok_response (TaskJson buy_milk_done))) two_task_world
      in task_list w1 = Some [TaskObj buy_milk_done, TaskObj walk_dog]
       \<and> task_list (handleToggleComplete_resume (tasks two_task_world)
                      (Resolved (ok_response (TaskJson buy_milk))) w1)
           = Some [TaskObj buy_milk, TaskObj walk_dog]
       \<and> task_list (handleToggleComplete_resume (tasks w1)
                      (Resolved (ok_response (TaskJson buy_milk))) w1)
           = Some [TaskObj buy_milk, TaskObj walk_dog])"
proof -
  have h1: "task_array (heap two_task_world) (tasks two_task_world) [0, 1]"
    by (simp add: two_task_world_def task_array_def elements_def lookup_def is_task_def)
  have h2: "ok (ok_response (TaskJson buy_milk_done))"
    and h3: "json_body (ok_response (TaskJson buy_milk_done)) = Some (TaskJson buy_milk_done)"
    and h4: "ok (ok_response (TaskJson buy_milk))"
    and h5: "json_body (ok_response (TaskJson buy_milk)) = Some (TaskJson buy_milk)"
    by (simp_all add: ok_response_def)
  have h6: "task_id buy_milk_done = task_id buy_milk"
    by (simp add: buy_milk_done_def buy_milk_def)
  have old: "task_list two_task_world = Some [TaskObj buy_milk, TaskObj walk_dog]"
    by (simp add: two_task_world_def task_list_def deref_array_def elements_def lookup_def)
  have idd: "task_id buy_milk = NumId 1" "task_id walk_dog = NumId 2"
    by (simp_all add: buy_milk_def walk_dog_def)
  have first: "task_list (handleToggleComplete_resume (tasks two_task_world)
                   (Resolved (ok_response (TaskJson buy_milk_done))) two_task_world)
      = Some [TaskObj buy_milk_done, TaskObj walk_dog]"
    using toggle_resume_task_list[OF h1 h2 h3] old deref_task_array[OF h1]
    by (simp add: task_list_def h6 idd)
  show ?thesis
    using h1 h2 h3 h4 h5 h6 toggle_last_applied_response_wins[OF h1 h2 h3 h4 h5 h6]
    by (simp add: old first idd Let_def)
qed

section \<open>Failures of the task operations\<close>

lemma deref_array_append_old:
  assumes "task_array h a rs"
  shows "deref_array (h @ ext) a = deref_array h a"
proof -
  have "\<forall>r\<in>set rs. r < length h"
    using task_array_less[OF assms] by blast
  then have "map ((!) (h @ ext)) rs = map ((!) h) rs"
    by (rule nth_append_old)
  then show ?thesis
    using deref_task_array[OF assms] deref_task_array[OF task_array_append_old[OF assms, of ext]]
    by simp
qed

lemma response_json_extends: "\<exists>ext. snd (response_json j h) = h @ ext"
  by (cases j) (simp_all add: alloc_def alloc_array_def)

lemma fetchTasks_failure:
  assumes "failure res"
  shows "tasks (fetchTasks res w) = tasks w"
    and "heap (fetchTasks res w) = heap w"
    and "\<exists>d. console (fetchTasks res w) = console w @ [d]"
    and "alerts (fetchTasks res w) = alerts w"
    and "network (fetchTasks res w) = network w @ [Request GET TasksUrl [] NoBody]"
  using assms
  by (cases res;
      simp add: fetchTasks_def fetchTasks_start_def fetchTasks_resume_def fetch_def
        setTaskLoading_def console_error_def)+

lemma toggle_failure:
  assumes "failure res"
  shows "tasks (handleToggleComplete c taskId currentStatus res w) = tasks w"
    and "\<exists>ext. heap (handleToggleComplete c taskId currentStatus res w) = heap w @ ext"
    and "\<exists>d. console (handleToggleComplete c taskId currentStatus res w) = console w @ [d]"
    and "alerts (handleToggleComplete c taskId currentStatus res w) = alerts w"
  using assms response_json_extends[of _ "heap w"]
  by (cases res;
      simp add: handleToggleComplete_def handleToggleComplete_resume_def fetch_def
        console_error_def case_prod_beta split: option.splits)+

text \<open>
  C3. On a transport or server failure (the request fails, or the status is not a success)
  Task List() and ToggleComplete leave the task list as it was (the same array, the same
  entries, the same values), write one line to the console, show no notice to the user, and
  issue no request beyond the one that failed.
\<close>

theorem task_failures_leave_list_unchanged:
  assumes "failure res"
    and "task_array (heap w) (tasks w) rs"
  shows "(let w' = fetchTasks res w
          in tasks w' = tasks w \<and> heap w' = heap w \<and> task_list w' = task_list w
           \<and> (\<exists>d. console w' = console w @ [d])
           \<and> alerts w' = alerts w
           \<and> network w' = network w @ [Request GET TasksUrl [] NoBody])
       \<and> (let w' = handleToggleComplete (tasks w) taskId currentStatus res w
          in tasks w' = tasks w \<and> (\<exists>ext. heap w' = heap w @ ext) \<and> task_list w' = task_list w
           \<and> (\<exists>d. console w' = console w @ [d])
           \<and> alerts w' = alerts w
           \<and> network w' = network w @ [Request PUT (TaskUrl taskId) json_headers
                                          (CompletedBody (\<not> currentStatus))])"
proof -
  let ?w2 = "handleToggleComplete (tasks w) taskId currentStatus res w"
  note A = fetchTasks_failure[OF assms(1), of w]
  note B = toggle_failure[OF assms(1), of "tasks w" taskId currentStatus w]
  have N: "network ?w2 = network w @ [Request PUT (TaskUrl taskId) json_headers
                                          (CompletedBody (\<not> currentStatus))]"
    by (simp add: handleToggleComplete_def network_toggle_resume fetch_def)
  obtain ext where "heap ?w2 = heap w @ ext"
    using B(2) by blast
  then have T: "task_list ?w2 = task_list w"
    by (simp add: B(1) task_list_def deref_array_append_old[OF assms(2)])
  show ?thesis
    unfolding Let_def using A B N T by (simp add: task_list_def)
qed

theorem task_failures_leave_list_unchanged_witness:
  "failure (Resolved error_response)
   \<and> task_array (heap two_task_world) (tasks two_task_world) [0, 1]
   \<and> task_list two_task_world = Some [TaskObj buy_milk, TaskObj walk_dog]
   \<and> (let w' = fetchTasks (Resolved error_response) two_task_world
      in tasks w' = tasks two_task_world
       \<and> task_list w' = Some [TaskObj buy_milk, TaskObj walk_dog]
       \<and> console w' = [(lit ''Failed to fetch tasks:'', ErrorArg (HttpError 500))]
       \<and> alerts w' = []
       \<and> network w' = [Request GET TasksUrl [] NoBody])
   \<and> (let w' = handleToggleComplete (tasks two_task_world) (NumId 1) False
                  (Resolved error_response) two_task_world
      in tasks w' = tasks two_task_world
       \<and> task_list w' = Some [TaskObj buy_milk, TaskObj walk_dog]
       \<and> console w' = [(lit ''Failed to update task:'',
                          StringArg (lit ''Internal Server Error''))]
       \<and> alerts w' = []
       \<and> network w' = [Request PUT (TaskUrl (NumId 1)) json_headers (CompletedBody True)])"
proof -
  have h1: "failure (Resolved error_response)"
    by (simp add: error_response_def)
  have h2: "task_array (heap two_task_world) (tasks two_task_world) [0, 1]"
    by (simp add: two_task_world_def task_array_def elements_def lookup_def is_task_def)
  have old: "task_list two_task_world = Some [TaskObj buy_milk, TaskObj walk_dog]"
    by (simp add: two_task_world_def task_list_def deref_array_def elements_def lookup_def)
  have c1: "console (fetchTasks (Resolved error_response) two_task_world)
      = [(lit ''Failed to fetch tasks:'', ErrorArg (HttpError 500))]"
    by (simp add: fetchTasks_def fetchTasks_start_def fetchTasks_resume_def fetch_def
        setTaskLoading_def console_error_def error_response_def two_task_world_def)
  have c2: "console (handleToggleComplete (tasks two_task_world) (NumId 1) False
                  (Resolved error_response) two_task_world)
      = [(lit ''Failed to update task:'', StringArg (lit ''Internal Server Error''))]"
    by (simp add: handleToggleComplete_def handleToggleComplete_resume_def fetch_def
        console_error_def error_response_def two_task_world_def alloc_def get_message_def
        lookup_def or_else_def)
  have e: "alerts two_task_world = []" "network two_task_world = []"
    by (simp_all add: two_task_world_def)
  show ?thesis
    using h1 h2 task_failures_leave_list_unchanged[OF h1 h2, of "NumId 1" False]
    by (simp add: old c1 c2 e Let_def)
qed

section \<open>Creating tasks and users\<close>

lemma network_handleAddTask_resume: "network (handleAddTask_resume c res w) = network w"
  by (simp add: handleAddTask_resume_def console_error_def setTasks_def
      setNewTaskDescription_def split: fetch_result.splits option.splits prod.splits)

lemma network_setUsers_append: "network (setUsers_append a w) = network w"
  by (simp add: setUsers_append_def setUsers_def split: option.splits prod.splits)

lemma network_handleCreateUser_resume:
  "\<exists>rest. network (handleCreateUser_resume res w) = network w @ rest"
  by (simp add: handleCreateUser_resume_def console_error_def alert_def fetchUsers_start_def
      fetch_def setUserLoading_def setNewUsername_def setNewUserEmail_def
      setNewUserPassword_def network_setUsers_append
      split: fetch_result.splits option.splits prod.splits)

text \<open>
  C4. Task Create on an input that is empty after trimming, and user Create on an input
  where one of the three fields is empty after trimming: the only effect is one notice to
  the user. No request is issued and neither list, nor anything else, changes.
\<close>

theorem empty_input_is_rejected_locally:
  "(trim d = [] \<longrightarrow>
      (let w' = handleAddTask c d res w
       in w' = w\<lparr>alerts := alerts w @ [lit ''Task description cannot be empty!'']\<rparr>
        \<and> network w' = network w \<and> tasks w' = tasks w \<and> heap w' = heap w
        \<and> task_list w' = task_list w))
   \<and> (trim un = [] \<or> trim em = [] \<or> trim pw = [] \<longrightarrow>
      (let w' = handleCreateUser un em pw res w
       in w' = w\<lparr>alerts := alerts w @ [lit ''All user fields are required!'']\<rparr>
        \<and> network w' = network w \<and> users w' = users w \<and> heap w' = heap w
        \<and> user_list w' = user_list w))"
  by (simp add: handleAddTask_def handleCreateUser_def alert_def task_list_def user_list_def)

theorem empty_input_is_rejected_locally_witness:
  "trim [] = [] \<and> trim [32, 32, 32] = []
   \<and> (trim [97] = [] \<or> trim [32, 9] = [] \<or> trim [120] = [])
   \<and> handleAddTask (tasks two_task_world) [] Rejected two_task_world
       = two_task_world\<lparr>alerts := [lit ''Task description cannot be empty!'']\<rparr>
   \<and> (let w' = handleAddTask (tasks two_task_world) [32, 32, 32]
                  (Resolved (ok_response (TaskJson walk_dog))) two_task_world
      in w' = two_task_world\<lparr>alerts := [lit ''Task description cannot be empty!'']\<rparr>
       \<and> network w' = [] \<and> task_list w' = Some [TaskObj buy_milk, TaskObj walk_dog])
   \<and> (let w' = handleCreateUser [97] [32, 9] [120]
                  (Resolved (ok_response (UserJson alice))) two_task_world
      in w' = two_task_world\<lparr>alerts := [lit ''All user fields are required!'']\<rparr>
       \<and> network w' = [] \<and> user_list w' = Some [UserObj alice])"
proof -
  have t: "trim [] = []" "trim [32, 32, 32] = []" "trim [32, 9] = []"
    by (simp_all add: trim_def isWhiteSpace_def)
  have e: "alerts two_task_world = []" "network two_task_world = []"
    by (simp_all add: two_task_world_def)
  have l: "task_list two_task_world = Some [TaskObj buy_milk, TaskObj walk_dog]"
    "user_list two_task_world = Some [UserObj alice]"
    by (simp_all add: two_task_world_def task_list_def user_list_def deref_array_def
        elements_def lookup_def)
  show ?thesis
    using empty_input_is_rejected_locally
        [of "[]" "tasks two_task_world" Rejected two_task_world "[97]" "[32, 9]" "[120]"]
      empty_input_is_rejected_locally
        [of "[32, 32, 32]" "tasks two_task_world" "Resolved (ok_response (TaskJson walk_dog))"
            two_task_world "[97]" "[32, 9]" "[120]"]
      empty_input_is_rejected_locally
        [of "[]" "tasks two_task_world" "Resolved (ok_response (UserJson alice))"
            two_task_world "[97]" "[32, 9]" "[120]"]
    by (simp add: t e l[unfolded task_list_def user_list_def] task_list_def user_list_def
        Let_def)
qed

text \<open>
  C9. Trimming is used for the emptiness check only. When the check passes, the body of the
  POST request of task Create is the description as typed, and the body of the POST request
  of user Create is the username, email and password as typed, leading and trailing white
  space included.
\<close>

theorem create_requests_carry_untrimmed_input:
  "(trim d \<noteq> [] \<longrightarrow>
      network (handleAddTask c d res w)
        = network w @ [Request POST TasksUrl json_headers (DescriptionBody d)])
   \<and> (trim un \<noteq> [] \<and> trim em \<noteq> [] \<and> trim pw \<noteq> [] \<longrightarrow>
      (\<exists>rest. network (handleCreateUser un em pw res w)
         = network w @ Request POST UsersUrl json_headers (UserBody un em pw) # rest))"
proof -
  have "\<exists>rest. network (handleCreateUser_resume res
                  (fetch (Request POST UsersUrl json_headers (UserBody un em pw)) w))
          = network w @ Request POST UsersUrl json_headers (UserBody un em pw) # rest"
    using network_handleCreateUser_resume
            [of res "fetch (Request POST UsersUrl json_headers (UserBody un em pw)) w"]
    by (simp add: fetch_def)
  then show ?thesis
    by (simp add: handleAddTask_def handleCreateUser_def network_handleAddTask_resume fetch_def)
qed

theorem create_requests_carry_untrimmed_input_witness:
  "trim [32, 97, 32] = [97] \<and> trim [32, 97, 32] \<noteq> []
   \<and> network (handleAddTask (tasks two_task_world) [32, 97, 32]
                (Resolved (ok_response (TaskJson walk_dog))) two_task_world)
       = [Request POST TasksUrl json_headers (DescriptionBody [32, 97, 32])]
   \<and> trim [32, 97] \<noteq> [] \<and> trim [98, 32] \<noteq> [] \<and> trim [9, 99, 10] \<noteq> []
   \<and> network (handleCreateUser [32, 97] [98, 32] [9, 99, 10]
                (Resolved (ok_response (UserJson alice))) two_task_world)
       = [Request POST UsersUrl json_headers (UserBody [32, 97] [98, 32] [9, 99, 10]),
          Request GET UsersUrl [] NoBody]"
proof -
  have t: "trim [32, 97, 32] = [97]" "trim [32, 97] \<noteq> []" "trim [98, 32] \<noteq> []"
    "trim [9, 99, 10] \<noteq> []"
    by (simp_all add: trim_def isWhiteSpace_def)
  have e: "network two_task_world = []"
    by (simp add: two_task_world_def)
  have n: "network (handleCreateUser [32, 97] [98, 32] [9, 99, 10]
                (Resolved (ok_response (UserJson alice))) two_task_world)
       = [Request POST UsersUrl json_headers (UserBody [32, 97] [98, 32] [9, 99, 10]),
          Request GET UsersUrl [] NoBody]"
    by (simp add: handleCreateUser_def handleCreateUser_resume_def t fetch_def e
        ok_response_def fetchUsers_start_def setUserLoading_def setNewUsername_def
        setNewUserEmail_def setNewUserPassword_def network_setUsers_append
        split: prod.splits)
  show ?thesis
    using create_requests_carry_untrimmed_input
        [of "[32, 97, 32]" "tasks two_task_world" "Resolved (ok_response (TaskJson walk_dog))"
            two_task_world "[32, 97]" "[98, 32]" "[9, 99, 10]"]
    by (simp add: t e n)
qed

section \<open>The success path of task Create\<close>

lemma is_task_not_array: "is_task h r \<Longrightarrow> elements h a = Some rs \<Longrightarrow> r \<noteq> a"
  by (auto simp: is_task_def elements_def split: option.splits obj.splits)

lemma task_array_not_self: "task_array h a rs \<Longrightarrow> r \<in> set rs \<Longrightarrow> r \<noteq> a"
  by (auto simp: task_array_def list_all_iff dest: is_task_not_array)

lemma those_snoc: "those xs = Some ys \<Longrightarrow> those (xs @ [Some x]) = Some (ys @ [x])"
  by (induction xs arbitrary: ys) (auto split: option.splits)

lemma add_task_resume_ok:
  assumes "task_array (heap w) c rs" "ok r" "json_body r = Some (TaskJson t)"
  shows "handleAddTask_resume c (Resolved r) w =
     w\<lparr>heap := (heap w @ [TaskObj t])[c := ArrayObj (rs @ [length (heap w)])],
       tasks := c, newTaskDescription := []\<rparr>"
proof -
  have el: "elements (heap w) c = Some rs"
    using assms(1) by (rule task_array_elements)
  have c: "c < length (heap w)"
    using el by (rule elements_Some_less)
  show ?thesis
    using assms(2,3) el c
    by (simp add: handleAddTask_resume_def alloc_def push_def elements_append_old
        setTasks_def setNewTaskDescription_def)
qed

lemma pushed_store:
  assumes "task_array h c rs"
  shows "elements ((h @ [x])[c := ArrayObj (rs @ [length h])]) c = Some (rs @ [length h])"
    and "lookup ((h @ [x])[c := ArrayObj (rs @ [length h])]) (length h) = Some x"
    and "\<forall>a\<in>set rs. lookup ((h @ [x])[c := ArrayObj (rs @ [length h])]) a = lookup h a"
    and "deref_array ((h @ [x])[c := ArrayObj (rs @ [length h])]) c
           = Some (map ((!) h) rs @ [x])"
proof -
  let ?h' = "(h @ [x])[c := ArrayObj (rs @ [length h])]"
  have c: "c < length h"
    using assms by (rule task_array_elements [THEN elements_Some_less])
  have live: "\<forall>a\<in>set rs. a < length h"
    using task_array_less[OF assms] by blast
  have other: "\<forall>a\<in>set rs. a \<noteq> c"
    using task_array_not_self[OF assms] by blast
  show el: "elements ?h' c = Some (rs @ [length h])"
    using c by (simp add: elements_def lookup_def)
  show new: "lookup ?h' (length h) = Some x"
    using c by (simp add: lookup_def)
  show old: "\<forall>a\<in>set rs. lookup ?h' a = lookup h a"
    using live other by (auto simp: lookup_def nth_append nth_list_update)
  have m: "map (lookup ?h') rs = map (lookup h) rs"
    using old by simp
  have "those (map (lookup ?h') (rs @ [length h])) = Some (map ((!) h) rs @ [x])"
    using those_snoc[OF those_map_lookup[OF live], of x] by (simp add: m new)
  then show "deref_array ?h' c = Some (map ((!) h) rs @ [x])"
    by (simp add: deref_array_def el)
qed

lemma filter_id_fresh:
  assumes "\<forall>a\<in>set rs. a < length h" "\<forall>a\<in>set rs. get_id h a \<noteq> Some k"
  shows "filter (\<lambda>x. obj_id x = Some k) (map ((!) h) rs) = []"
  using assms by (induction rs) (simp_all add: obj_id_nth)

text \<open>
  C5, as stated, at three concrete inputs.

  The list holds "buy milk", the description typed is "pay rent", and the server answers
  the creation with the task of id 3 marked completed: the task appended is that answer,
  completed, where the claim has \<open>completed = false\<close> for it.

  The list holds "buy milk" and "walk dog" (id 2), and the server answers the creation with
  a task of id 2: the list then has two entries with the server-assigned id, where the
  claim has the new Task in the list exactly once.

  The list holds "buy milk" and "walk dog"; the user toggles "buy milk" and submits
  "pay rent" before either response is back. The toggle response makes the local list
  "buy milk" (completed), "walk dog". The creation response then puts back the list its
  handler holds, with the new task pushed onto it: "buy milk" (not completed), "walk dog",
  "pay rent". That is not the local task list with the returned Task appended.
\<close>

theorem add_task_claim_counterexample:
  "trim (lit ''pay rent'') \<noteq> []
   \<and> ok (ok_response (TaskJson pay_rent_done))
   \<and> task_list one_task_world = Some [TaskObj buy_milk]
   \<and> task_list (handleAddTask (tasks one_task_world) (lit ''pay rent'')
                   (Resolved (ok_response (TaskJson pay_rent_done))) one_task_world)
       = Some [TaskObj buy_milk,
               TaskObj \<lparr>task_id = NumId 3, description = lit ''pay rent'', completed = True\<rparr>]
   \<and> trim (lit ''walk dog'') \<noteq> []
   \<and> ok (ok_response (TaskJson walk_dog))
   \<and> task_list two_task_world = Some [TaskObj buy_milk, TaskObj walk_dog]
   \<and> task_list (handleAddTask (tasks two_task_world) (lit ''walk dog'')
                   (Resolved (ok_response (TaskJson walk_dog))) two_task_world)
       = Some [TaskObj buy_milk, TaskObj walk_dog, TaskObj walk_dog]
   \<and> length (filter (\<lambda>x. obj_id x = Some (task_id walk_dog))
                [TaskObj buy_milk, TaskObj walk_dog, TaskObj walk_dog]) = 2
   \<and> ok (ok_response (TaskJson pay_rent))
   \<and> (let c = tasks two_task_world;
           w0 = fetch (Request POST TasksUrl json_headers (DescriptionBody (lit ''pay rent'')))
                  (fetch (Request PUT (TaskUrl (NumId 1)) json_headers
                            (CompletedBody (\<not> False)))
                     two_task_world);
           w1 = handleToggleComplete_resume c
                  (Resolved (ok_response (TaskJson buy_milk_done))) w0;
           w2 = handleAddTask_resume c (Resolved (ok_response (TaskJson pay_rent))) w1
       in task_list w1 = Some [TaskObj buy_milk_done, TaskObj walk_dog]
        \<and> task_list w2 = Some [TaskObj buy_milk, TaskObj walk_dog, TaskObj pay_rent]
        \<and> task_list w2 \<noteq> Some [TaskObj buy_milk_done, TaskObj walk_dog, TaskObj pay_rent])"
proof -
  have t: "trim (lit ''pay rent'') \<noteq> []" "trim (lit ''walk dog'') \<noteq> []"
    by (simp_all add: lit_def trim_def isWhiteSpace_def)
  have o: "ok (ok_response (TaskJson pay_rent_done))" "ok (ok_response (TaskJson walk_dog))"
    "ok (ok_response (TaskJson pay_rent))"
    by (simp_all add: ok_response_def)
  have l: "task_list one_task_world = Some [TaskObj buy_milk]"
    "task_list two_task_world = Some [TaskObj buy_milk, TaskObj walk_dog]"
    by (simp_all add: one_task_world_def two_task_world_def task_list_def deref_array_def
        elements_def lookup_def)
  have A: "task_list (handleAddTask (tasks one_task_world) (lit ''pay rent'')
                   (Resolved (ok_response (TaskJson pay_rent_done))) one_task_world)
       = Some [TaskObj buy_milk,
               TaskObj \<lparr>task_id = NumId 3, description = lit ''pay rent'', completed = True\<rparr>]"
    using t(1)
    by (simp add: handleAddTask_def handleAddTask_resume_def fetch_def ok_response_def
        one_task_world_def alloc_def push_def elements_def lookup_def setTasks_def
        setNewTaskDescription_def task_list_def deref_array_def nth_append pay_rent_done_def)
  have B: "task_list (handleAddTask (tasks two_task_world) (lit ''walk dog'')
                   (Resolved (ok_response (TaskJson walk_dog))) two_task_world)
       = Some [TaskObj buy_milk, TaskObj walk_dog, TaskObj walk_dog]"
    using t(2)
    by (simp add: handleAddTask_def handleAddTask_resume_def fetch_def ok_response_def
        two_task_world_def alloc_def push_def elements_def lookup_def setTasks_def
        setNewTaskDescription_def task_list_def deref_array_def nth_append)
  have C: "length (filter (\<lambda>x. obj_id x = Some (task_id walk_dog))
                [TaskObj buy_milk, TaskObj walk_dog, TaskObj walk_dog]) = 2"
    by (simp add: buy_milk_def walk_dog_def)
  have D: "(let c = tasks two_task_world;
           w0 = fetch (Request POST TasksUrl json_headers (DescriptionBody (lit ''pay rent'')))
                  (fetch (Request PUT (TaskUrl (NumId 1)) json_headers
                            (CompletedBody (\<not> False)))
                     two_task_world);
           w1 = handleToggleComplete_resume c
                  (Resolved (ok_response (TaskJson buy_milk_done))) w0;
           w2 = handleAddTask_resume c (Resolved (ok_response (TaskJson pay_rent))) w1
       in task_list w1 = Some [TaskObj buy_milk_done, TaskObj walk_dog]
        \<and> task_list w2 = Some [TaskObj buy_milk, TaskObj walk_dog, TaskObj pay_rent]
        \<and> task_list w2 \<noteq> Some [TaskObj buy_milk_done, TaskObj walk_dog, TaskObj pay_rent])"
    by (simp add: Let_def two_task_world_def ok_response_def fetch_def
        handleToggleComplete_resume_def handleAddTask_resume_def alloc_def array_map_def
        push_def elements_def lookup_def get_id_def setTasks_def setNewTaskDescription_def
        task_list_def deref_array_def nth_append buy_milk_def buy_milk_done_def walk_dog_def)
  show ?thesis
    using t o l A B C D by simp
qed

text \<open>
  C5, amended. A description \<open>d\<close> that is not empty after trimming makes task Create issue
  its request. When the successful response, carrying a Task, arrives while the local task
  list is still the list the handler holds (no other update of the task list was applied
  since the render that created the handler), the returned Task is appended to the local
  task list: it is the last entry, a new one, with the id and the \<open>completed\<close> value the
  server returned; the entries that were there are unchanged; it is the only entry with its
  id provided no earlier entry has that id; and the input field is cleared.
\<close>

theorem add_task_success_appends_returned_task:
  assumes "trim d \<noteq> []"
    and "ok r"
    and "json_body r = Some (TaskJson t)"
    and "task_array (heap w) c rs"
    and "tasks w = c"
  shows "handleAddTask c d (Resolved r) w0
           = handleAddTask_resume c (Resolved r)
               (fetch (Request POST TasksUrl json_headers (DescriptionBody d)) w0)
       \<and> (let w' = handleAddTask_resume c (Resolved r) w;
               new = length (heap w)
           in tasks w' = tasks w
            \<and> elements (heap w') (tasks w') = Some (rs @ [new])
            \<and> count_list (rs @ [new]) new = 1
            \<and> lookup (heap w') new = Some (TaskObj t)
            \<and> (\<forall>a\<in>set rs. lookup (heap w') a = lookup (heap w) a)
            \<and> task_list w' = map_option (\<lambda>xs. xs @ [TaskObj t]) (task_list w)
            \<and> ((\<forall>a\<in>set rs. get_id (heap w) a \<noteq> Some (task_id t)) \<longrightarrow>
                  map_option (\<lambda>xs. length (filter (\<lambda>x. obj_id x = Some (task_id t)) xs))
                    (task_list w') = Some 1)
            \<and> newTaskDescription w' = [])"
proof -
  have call: "handleAddTask c d (Resolved r) w0
           = handleAddTask_resume c (Resolved r)
               (fetch (Request POST TasksUrl json_headers (DescriptionBody d)) w0)"
    using assms(1) by (simp add: handleAddTask_def)
  have w': "handleAddTask_resume c (Resolved r) w
      = w\<lparr>heap := (heap w @ [TaskObj t])[c := ArrayObj (rs @ [length (heap w)])],
          tasks := c, newTaskDescription := []\<rparr>"
    using assms(4,2,3) by (rule add_task_resume_ok)
  have live: "\<forall>a\<in>set rs. a < length (heap w)"
    using task_array_less[OF assms(4)] by blast
  then have once: "count_list (rs @ [length (heap w)]) (length (heap w)) = 1"
    by (auto simp: count_list_0_iff)
  have old: "task_list w = Some (map ((!) (heap w)) rs)"
    using deref_task_array[OF assms(4)] assms(5) by (simp add: task_list_def)
  note P = pushed_store[OF assms(4), of "TaskObj t"]
  have new: "task_list (handleAddTask_resume c (Resolved r) w)
      = Some (map ((!) (heap w)) rs @ [TaskObj t])"
    using P(4) by (simp add: w' task_list_def)
  have byid: "(\<forall>a\<in>set rs. get_id (heap w) a \<noteq> Some (task_id t)) \<longrightarrow>
      map_option (\<lambda>xs. length (filter (\<lambda>x. obj_id x = Some (task_id t)) xs))
        (task_list (handleAddTask_resume c (Resolved r) w)) = Some 1"
    using filter_id_fresh[OF live] by (simp add: new)
  have rest: "tasks (handleAddTask_resume c (Resolved r) w) = tasks w"
    "elements (heap (handleAddTask_resume c (Resolved r) w))
       (tasks (handleAddTask_resume c (Resolved r) w)) = Some (rs @ [length (heap w)])"
    "lookup (heap (handleAddTask_resume c (Resolved r) w)) (length (heap w)) = Some (TaskObj t)"
    "\<forall>a\<in>set rs. lookup (heap (handleAddTask_resume c (Resolved r) w)) a = lookup (heap w) a"
    "newTaskDescription (handleAddTask_resume c (Resolved r) w) = []"
    using P assms(5) by (simp_all add: w')
  show ?thesis
    unfolding Let_def using call rest once new old byid by simp
qed

theorem add_task_success_appends_returned_task_witness:
  "trim (lit ''walk dog'') \<noteq> []
   \<and> ok (ok_response (TaskJson walk_dog))
   \<and> json_body (ok_response (TaskJson walk_dog)) = Some (TaskJson walk_dog)
   \<and> task_array (heap one_task_world) (tasks one_task_world) [0]
   \<and> get_id (heap one_task_world) 0 \<noteq> Some (task_id walk_dog)
   \<and> task_list one_task_world = Some [TaskObj buy_milk]
   \<and> handleAddTask (tasks one_task_world) (lit ''walk dog'')
         (Resolved (ok_response (TaskJson walk_dog))) one_task_world
       = handleAddTask_resume (tasks one_task_world) (Resolved (ok_response (TaskJson walk_dog)))
           (fetch (Request POST TasksUrl json_headers (DescriptionBody (lit ''walk dog'')))
              one_task_world)
   \<and> (let w' = handleAddTask_resume (tasks one_task_world)
                  (Resolved (ok_response (TaskJson walk_dog))) one_task_world
      in tasks w' = tasks one_task_world
       \<and> elements (heap w') (tasks w') = Some [0, 3]
       \<and> lookup (heap w') 3 = Some (TaskObj walk_dog)
       \<and> lookup (heap w') 0 = Some (TaskObj buy_milk)
       \<and> task_list w' = Some [TaskObj buy_milk, TaskObj walk_dog]
       \<and> length (filter (\<lambda>x. obj_id x = Some (task_id walk_dog))
                    [TaskObj buy_milk, TaskObj walk_dog]) = 1
       \<and> newTaskDescription w' = [])"
proof -
  have h1: "trim (lit ''walk dog'') \<noteq> []"
    by (simp add: lit_def trim_def isWhiteSpace_def)
  have h2: "ok (ok_response (TaskJson walk_dog))"
    and h3: "json_body (ok_response (TaskJson walk_dog)) = Some (TaskJson walk_dog)"
    by (simp_all add: ok_response_def)
  have h4: "task_array (heap one_task_world) (tasks one_task_world) [0]"
    by (simp add: one_task_world_def task_array_def elements_def lookup_def is_task_def)
  have fresh: "get_id (heap one_task_world) 0 \<noteq> Some (task_id walk_dog)"
    by (simp add: one_task_world_def get_id_def lookup_def buy_milk_def walk_dog_def)
  have old: "task_list one_task_world = Some [TaskObj buy_milk]"
    by (simp add: one_task_world_def task_list_def deref_array_def elements_def lookup_def)
  have len: "length (heap one_task_world) = 3"
    by (simp add: one_task_world_def)
  have cell: "lookup (heap one_task_world) 0 = Some (TaskObj buy_milk)"
    by (simp add: one_task_world_def lookup_def)
  have cnt: "length (filter (\<lambda>x. obj_id x = Some (task_id walk_dog))
                    [TaskObj buy_milk, TaskObj walk_dog]) = 1"
    by (simp add: buy_milk_def walk_dog_def)
  show ?thesis
    using h1 h2 h3 h4 fresh cnt
      add_task_success_appends_returned_task[OF h1 h2 h3 h4 refl, of one_task_world]
    by (auto simp: old len cell Let_def)
qed

section \<open>The user list\<close>

lemma is_user_less: "is_user h a \<Longrightarrow> a < length h"
  by (auto simp: is_user_def dest: lookup_Some_less split: option.splits)

lemma user_array_less: "user_array h a rs \<Longrightarrow> r \<in> set rs \<Longrightarrow> r < length h"
  by (auto simp: user_array_def list_all_iff dest: is_user_less)

lemma user_array_elements: "user_array h a rs \<Longrightarrow> elements h a = Some rs"
  by (simp add: user_array_def)

lemma deref_user_array: "user_array h a rs \<Longrightarrow> deref_array h a = Some (map ((!) h) rs)"
  by (rule deref_array_live) (auto simp: user_array_elements dest: user_array_less)

lemma create_user_resume_ok:
  assumes "user_array (heap w) (users w) rs" "ok r" "json_body r = Some (UserJson u)"
  shows "handleCreateUser_resume (Resolved r) w =
     w\<lparr>heap := heap w @ [UserObj u, ArrayObj (rs @ [length (heap w)])],
       users := Suc (length (heap w)),
       newUsername := [], newUserEmail := [], newUserPassword := [],
       userLoading := True,
       network := network w @ [Request GET UsersUrl [] NoBody]\<rparr>"
proof -
  have el: "elements (heap w) (users w) = Some rs"
    using assms(1) by (rule user_array_elements)
  have c: "users w < length (heap w)"
    using el by (rule elements_Some_less)
  show ?thesis
    using assms(2,3) el c
    by (simp add: handleCreateUser_resume_def alloc_def setUsers_append_def spread_append_def
        elements_append_old setUsers_def setNewUsername_def setNewUserEmail_def
        setNewUserPassword_def fetchUsers_start_def setUserLoading_def fetch_def)
qed

lemma appended_store:
  assumes "\<forall>a\<in>set rs. a < length h"
  shows "deref_array (h @ [x, ArrayObj (rs @ [length h])]) (Suc (length h))
           = Some (map ((!) h) rs @ [x])"
proof -
  let ?h' = "h @ [x, ArrayObj (rs @ [length h])]"
  have el: "elements ?h' (Suc (length h)) = Some (rs @ [length h])"
    by (simp add: elements_def lookup_def nth_append)
  have live': "\<forall>a\<in>set (rs @ [length h]). a < length ?h'"
    using assms by auto
  have "map ((!) ?h') (rs @ [length h]) = map ((!) h) rs @ [x]"
    using assms by (simp add: nth_append)
  then show ?thesis
    using deref_array_live[OF el live'] by simp
qed

text \<open>
  C6. User Create with the three fields non-empty after trimming, followed by a successful
  response whose body is a User: the user list is the old one with that User appended as
  one new entry, the three input fields are empty, and the request that fetches the whole
  user collection again has been issued.
\<close>

theorem create_user_success_appends_and_refetches:
  assumes "user_array (heap w) (users w) rs"
    and "trim un \<noteq> []" and "trim em \<noteq> []" and "trim pw \<noteq> []"
    and "ok r"
    and "json_body r = Some (UserJson u)"
  shows "(let w' = handleCreateUser un em pw (Resolved r) w;
              new = length (heap w)
          in elements (heap w') (users w') = Some (rs @ [new])
           \<and> lookup (heap w') new = Some (UserObj u)
           \<and> (\<forall>a\<in>set rs. lookup (heap w') a = lookup (heap w) a)
           \<and> user_list w' = map_option (\<lambda>xs. xs @ [UserObj u]) (user_list w)
           \<and> newUsername w' = [] \<and> newUserEmail w' = [] \<and> newUserPassword w' = []
           \<and> network w'
               = network w @ [Request POST UsersUrl json_headers (UserBody un em pw),
                              Request GET UsersUrl [] NoBody]
           \<and> userLoading w'
           \<and> uncaught w' = uncaught w)"
proof -
  let ?v = "fetch (Request POST UsersUrl json_headers (UserBody un em pw)) w"
  have ua: "user_array (heap ?v) (users ?v) rs"
    using assms(1) by (simp add: fetch_def)
  have w': "handleCreateUser un em pw (Resolved r) w
      = w\<lparr>heap := heap w @ [UserObj u, ArrayObj (rs @ [length (heap w)])],
          users := Suc (length (heap w)),
          newUsername := [], newUserEmail := [], newUserPassword := [],
          userLoading := True,
          network := network w @ [Request POST UsersUrl json_headers (UserBody un em pw),
                                  Request GET UsersUrl [] NoBody]\<rparr>"
    using assms(2,3,4) create_user_resume_ok[OF ua assms(5,6)]
    by (simp add: handleCreateUser_def fetch_def)
  have live: "\<forall>a\<in>set rs. a < length (heap w)"
    using user_array_less[OF assms(1)] by blast
  have old: "user_list w = Some (map ((!) (heap w)) rs)"
    using deref_user_array[OF assms(1)] by (simp add: user_list_def)
  have el: "elements (heap w @ [UserObj u, ArrayObj (rs @ [length (heap w)])])
              (Suc (length (heap w))) = Some (rs @ [length (heap w)])"
    by (simp add: elements_def lookup_def nth_append)
  have cells: "\<forall>a\<in>set rs. lookup (heap w @ [UserObj u, ArrayObj (rs @ [length (heap w)])]) a
                 = lookup (heap w) a"
    using live by (simp add: lookup_append_old)
  show ?thesis
    unfolding Let_def
    using el cells old appended_store[OF live, of "UserObj u"]
    by (simp add: w' user_list_def lookup_new)
qed

theorem create_user_success_appends_and_refetches_witness:
  "user_array (heap alice_form_world) (users alice_form_world) []
   \<and> trim (newUsername alice_form_world) \<noteq> []
   \<and> trim (newUserEmail alice_form_world) \<noteq> []
   \<and> trim (newUserPassword alice_form_world) \<noteq> []
   \<and> ok (ok_response (UserJson alice))
   \<and> json_body (ok_response (UserJson alice)) = Some (UserJson alice)
   \<and> user_list alice_form_world = Some []
   \<and> (let w' = handleCreateUser (newUsername alice_form_world) (newUserEmail alice_form_world)
                  (newUserPassword alice_form_world) (Resolved (ok_response (UserJson alice)))
                  alice_form_world
      in user_list w' = Some [UserObj alice]
       \<and> newUsername w' = [] \<and> newUserEmail w' = [] \<and> newUserPassword w' = []
       \<and> network w'
           = [Request POST UsersUrl json_headers
                (UserBody (lit ''alice'') (lit ''a@x.com'') (lit ''secret'')),
              Request GET UsersUrl [] NoBody])"
proof -
  have h1: "user_array (heap alice_form_world) (users alice_form_world) []"
    by (simp add: alice_form_world_def one_task_world_def user_array_def elements_def
        lookup_def)
  have f: "newUsername alice_form_world = lit ''alice''"
    "newUserEmail alice_form_world = lit ''a@x.com''"
    "newUserPassword alice_form_world = lit ''secret''"
    by (simp_all add: alice_form_world_def)
  have t: "trim (lit ''alice'') \<noteq> []" "trim (lit ''a@x.com'') \<noteq> []"
    "trim (lit ''secret'') \<noteq> []"
    by (simp_all add: lit_def trim_def isWhiteSpace_def)
  have h5: "ok (ok_response (UserJson alice))"
    and h6: "json_body (ok_response (UserJson alice)) = Some (UserJson alice)"
    by (simp_all add: ok_response_def)
  have old: "user_list alice_form_world = Some []"
    by (simp add: alice_form_world_def one_task_world_def user_list_def deref_array_def
        elements_def lookup_def)
  have e: "network alice_form_world = []"
    by (simp add: alice_form_world_def one_task_world_def)
  show ?thesis
    using h1 t h5 h6
      create_user_success_appends_and_refetches
        [OF h1 t[folded f] h5 h6]
    by (auto simp: f old e Let_def)
qed

text \<open>
  C2. \<open>fetchUsers\<close> does not test \<open>response.ok\<close>, as \<open>fetchTasks\<close> does. With the user list
  holding alice, a response of status 500 whose body is the JSON error object
  \<open>{"detail": {"message": "boom"}}\<close> makes that object the value of \<open>users\<close>: the user
  list is gone and nothing is written to the console. The same response leaves the task
  list in place and is logged by \<open>fetchTasks\<close>.
\<close>

theorem fetchUsers_non_ok_response_replaces_list:
  "\<not> ok error_response
   \<and> user_list two_task_world = Some [UserObj alice]
   \<and> (let w' = fetchUsers (Resolved error_response) two_task_world
      in users w' \<noteq> users two_task_world
       \<and> lookup (heap w') (users w') = Some (ErrorObj None (Some (lit ''boom'')))
       \<and> user_list w' = None
       \<and> console w' = console two_task_world)
   \<and> (let w' = fetchTasks (Resolved error_response) two_task_world
      in tasks w' = tasks two_task_world
       \<and> task_list w' = Some [TaskObj buy_milk, TaskObj walk_dog]
       \<and> console w' = [(lit ''Failed to fetch tasks:'', ErrorArg (HttpError 500))])"
  by (simp add: error_response_def two_task_world_def user_list_def task_list_def
      deref_array_def elements_def lookup_def fetchUsers_def fetchUsers_start_def
      fetchUsers_resume_def fetchTasks_def fetchTasks_start_def fetchTasks_resume_def
      fetch_def setUserLoading_def setTaskLoading_def setUsers_def alloc_def
      console_error_def Let_def)

end
